theory Spec2Isabelle
  imports Main "HOL-Library.Word"
begin

unbundle bit_operations_syntax

section \<open>The A32 JIT facade of the A64 backend (a32_interface.cpp)\<close>

type_synonym u32 = "32 word"
type_synonym u64 = "64 word"

subsection \<open>Data\<close>

text \<open>
  The guest-state block \<^verbatim>\<open>A32JitState\<close>. Its declaration (a32_jitstate.h) is not among the
  sources, so the record has exactly the members that a32_interface.cpp names:
  the thirteen members and the three return-stack-buffer members that
  \<^verbatim>\<open>TransferJitState\<close> copies, and \<^verbatim>\<open>halt_requested\<close>. The arrays
  (\<^verbatim>\<open>std::array\<close>) are lists; \<^verbatim>\<open>Jit::Regs\<close> and \<^verbatim>\<open>Jit::ExtRegs\<close> give the
  register files 16 and 64 words.
\<close>

record A32JitState =
  Reg :: "u32 list"
  CPSR_ge :: u32
  CPSR_et :: u32
  CPSR_q :: u32
  CPSR_nzcv :: u32
  CPSR_jaifm :: u32
  ExtReg :: "u32 list"
  guest_FPCR :: u32
  guest_FPSR :: u32
  halt_requested :: bool
  rsb_ptr :: u32
  rsb_location_descriptors :: "u64 list"
  rsb_codeptrs :: "u64 list"
  FPSCR_IDC :: u32
  FPSCR_UFC :: u32
  FPSCR_mode :: u32
  FPSCR_nzcv :: u32

text \<open>
  \<^verbatim>\<open>A32EmitA64::BlockDescriptor\<close>: \<^verbatim>\<open>Disassemble\<close> reads its members
  \<^verbatim>\<open>entrypoint\<close> and \<^verbatim>\<open>size\<close>.
\<close>

record BlockDescriptor =
  entrypoint :: u64
  block_size :: nat

text \<open>
  \<^verbatim>\<open>Jit\<close> together with the \<^verbatim>\<open>Jit::Impl\<close> it owns. The facade holds
  \<^verbatim>\<open>is_executing\<close>; the implementation holds the guest-state block, the code arena
  \<^verbatim>\<open>block_of_code\<close> (type \<open>'b\<close>), the emitter with its block cache (type \<open>'e\<close>) and the
  queue of invalidation requests. \<^verbatim>\<open>boost::icl::interval_set<u32>\<close> is the set of
  addresses its intervals cover; \<^verbatim>\<open>size_t\<close> is 64 bits wide on the A64 host.
\<close>

record ('b, 'e) Jit =
  is_executing :: bool
  jit_state :: A32JitState
  block_of_code :: 'b
  emitter :: 'e
  invalid_cache_generation :: u64
  invalid_cache_ranges :: "u32 set"
  invalidate_entire_cache :: bool

text \<open>\<^verbatim>\<open>Context::Impl\<close>.\<close>

record Context =
  ctx_jit_state :: A32JitState
  ctx_invalid_cache_generation :: u64

text \<open>
  What a32_interface.cpp calls and does not define: the members of \<^verbatim>\<open>A32JitState\<close>,
  \<^verbatim>\<open>BlockOfCode\<close> and \<^verbatim>\<open>A32EmitA64\<close>, the translator and the optimisation passes.
  They are parameters of the model.

  \<^item> \<open>reset_rsb\<close>: the values \<^verbatim>\<open>A32JitState::ResetRSB\<close> leaves in the return stack
    buffer (pointer, location descriptors, code pointers), given the old ones;
  \<^item> \<open>RSBPtrMask\<close>, \<open>GetUniqueHash\<close>: the constant and the hash \<^verbatim>\<open>Execute\<close> uses;
  \<^item> \<open>RunCode\<close>, \<open>RunCodeFrom\<close>: running emitted code from the dispatcher or from a code
    pointer. Emitted code calls back into the consumer, which may call the facade, so a
    run maps the whole \<^verbatim>\<open>Jit\<close> to a new one; \<open>None\<close> is a run that does not return;
  \<^item> \<open>SpaceRemaining\<close>, \<open>BlockOfCode_ClearCache\<close>: \<^verbatim>\<open>BlockOfCode\<close>;
  \<^item> \<open>A32EmitA64_GetBasicBlock\<close>, \<open>A32EmitA64_ClearCache\<close>, \<open>InvalidateCacheRanges\<close>,
    \<open>Emit\<close>: \<^verbatim>\<open>A32EmitA64\<close>. The emitter holds a reference to the arena, so the last two
    map the pair of both;
  \<^item> \<open>Translate\<close> (closed over the configuration's code-read callback and
    \<^verbatim>\<open>define_unpredictable_behaviour\<close>) and the passes of \<^verbatim>\<open>Optimization\<close>, which update
    the IR block (type \<open>'ir\<close>) they are given.
\<close>

record ('b, 'e, 'ir) collaborators =
  reset_rsb :: "u32 \<times> u64 list \<times> u64 list \<Rightarrow> u32 \<times> u64 list \<times> u64 list"
  RSBPtrMask :: u32
  GetUniqueHash :: "A32JitState \<Rightarrow> u64"
  RunCode :: "('b, 'e) Jit \<Rightarrow> ('b, 'e) Jit option"
  RunCodeFrom :: "('b, 'e) Jit \<Rightarrow> u64 \<Rightarrow> ('b, 'e) Jit option"
  SpaceRemaining :: "'b \<Rightarrow> nat"
  BlockOfCode_ClearCache :: "'b \<Rightarrow> 'b"
  A32EmitA64_GetBasicBlock :: "'e \<Rightarrow> u64 \<Rightarrow> BlockDescriptor option"
  A32EmitA64_ClearCache :: "'e \<Rightarrow> 'e"
  InvalidateCacheRanges :: "u32 set \<Rightarrow> 'b \<times> 'e \<Rightarrow> 'b \<times> 'e"
  Emit :: "'ir \<Rightarrow> 'b \<times> 'e \<Rightarrow> BlockDescriptor \<times> 'b \<times> 'e"
  Translate :: "u64 \<Rightarrow> 'ir"
  A32GetSetElimination :: "'ir \<Rightarrow> 'ir"
  DeadCodeElimination :: "'ir \<Rightarrow> 'ir"
  A32ConstantMemoryReads :: "'ir \<Rightarrow> 'ir"
  ConstantPropagation :: "'ir \<Rightarrow> 'ir"
  A32MergeInterpretBlocksPass :: "'ir \<Rightarrow> 'ir"
  VerificationPass :: "'ir \<Rightarrow> 'ir"

datatype error = PreconditionViolated

subsection \<open>The guest-state block\<close>

text \<open>
  Modelled from the spec: \<^verbatim>\<open>A32JitState::ResetRSB\<close> (a32_jitstate.cpp is not among the
  sources). It resets the return stack buffer, the ring of (unique hash, host code
  pointer) pairs with its pointer index, and nothing else of the guest-state block; the
  values it writes are the parameter \<open>reset_rsb\<close>.
\<close>

definition ResetRSB :: "('b, 'e, 'ir) collaborators \<Rightarrow> A32JitState \<Rightarrow> A32JitState" where
  "ResetRSB X s =
     (case reset_rsb X (rsb_ptr s, rsb_location_descriptors s, rsb_codeptrs s) of
        (p, l, c) \<Rightarrow> s\<lparr>rsb_ptr := p, rsb_location_descriptors := l, rsb_codeptrs := c\<rparr>)"

text \<open>
  Modelled from the spec: the value-initialised guest-state block \<^verbatim>\<open>A32JitState{}\<close> (the
  declaration is not among the sources). Section 4.6 has \<^verbatim>\<open>reset()\<close> zero-initialise the
  block; the ring has as many entries as its mask constant allows.
\<close>

definition A32JitState_init :: "('b, 'e, 'ir) collaborators \<Rightarrow> A32JitState" where
  "A32JitState_init X =
     \<lparr>Reg = replicate 16 0, CPSR_ge = 0, CPSR_et = 0, CPSR_q = 0, CPSR_nzcv = 0,
      CPSR_jaifm = 0, ExtReg = replicate 64 0, guest_FPCR = 0, guest_FPSR = 0,
      halt_requested = False, rsb_ptr = 0,
      rsb_location_descriptors = replicate (Suc (unat (RSBPtrMask X))) 0,
      rsb_codeptrs = replicate (Suc (unat (RSBPtrMask X))) 0,
      FPSCR_IDC = 0, FPSCR_UFC = 0, FPSCR_mode = 0, FPSCR_nzcv = 0\<rparr>"

text \<open>\<^verbatim>\<open>TransferJitState(dest, src, reset_rsb)\<close>, returning the updated \<^verbatim>\<open>dest\<close>.\<close>

definition TransferJitState ::
  "('b, 'e, 'ir) collaborators \<Rightarrow> A32JitState \<Rightarrow> A32JitState \<Rightarrow> bool \<Rightarrow> A32JitState" where
  "TransferJitState X dest src reset =
     (let d = dest\<lparr>CPSR_ge := CPSR_ge src, CPSR_et := CPSR_et src, CPSR_q := CPSR_q src,
                   CPSR_nzcv := CPSR_nzcv src, CPSR_jaifm := CPSR_jaifm src,
                   Reg := Reg src, ExtReg := ExtReg src,
                   guest_FPCR := guest_FPCR src, guest_FPSR := guest_FPSR src,
                   FPSCR_IDC := FPSCR_IDC src, FPSCR_UFC := FPSCR_UFC src,
                   FPSCR_mode := FPSCR_mode src, FPSCR_nzcv := FPSCR_nzcv src\<rparr>
      in if reset then ResetRSB X d
         else d\<lparr>rsb_ptr := rsb_ptr src,
                rsb_location_descriptors := rsb_location_descriptors src,
                rsb_codeptrs := rsb_codeptrs src\<rparr>)"

subsection \<open>The invalidation controller\<close>

text \<open>
  \<^verbatim>\<open>Jit::Impl::PerformCacheInvalidation\<close>. \<^verbatim>\<open>invalid_cache_generation++\<close> is an
  increment of a \<^verbatim>\<open>size_t\<close>, which wraps around.
\<close>

definition PerformCacheInvalidation ::
  "('b, 'e, 'ir) collaborators \<Rightarrow> ('b, 'e) Jit \<Rightarrow> ('b, 'e) Jit" where
  "PerformCacheInvalidation X j =
     (if invalidate_entire_cache j then
        j\<lparr>jit_state := ResetRSB X (jit_state j),
          block_of_code := BlockOfCode_ClearCache X (block_of_code j),
          emitter := A32EmitA64_ClearCache X (emitter j),
          invalid_cache_ranges := {},
          invalidate_entire_cache := False,
          invalid_cache_generation := invalid_cache_generation j + 1\<rparr>
      else if invalid_cache_ranges j = {} then j
      else
        (case InvalidateCacheRanges X (invalid_cache_ranges j) (block_of_code j, emitter j) of
           (b, e) \<Rightarrow>
             j\<lparr>jit_state := ResetRSB X (jit_state j),
               block_of_code := b,
               emitter := e,
               invalid_cache_ranges := {},
               invalid_cache_generation := invalid_cache_generation j + 1\<rparr>))"

text \<open>\<^verbatim>\<open>Jit::Impl::RequestCacheInvalidation\<close>.\<close>

definition RequestCacheInvalidation ::
  "('b, 'e, 'ir) collaborators \<Rightarrow> ('b, 'e) Jit \<Rightarrow> ('b, 'e) Jit" where
  "RequestCacheInvalidation X j =
     (if is_executing j then j\<lparr>jit_state := (jit_state j)\<lparr>halt_requested := True\<rparr>\<rparr>
      else PerformCacheInvalidation X j)"

text \<open>
  \<^verbatim>\<open>Jit::Impl::GetBasicBlock\<close>, returning the block descriptor and the updated state.
\<close>

definition MINIMUM_REMAINING_CODESIZE :: nat where
  "MINIMUM_REMAINING_CODESIZE = 1 * 1024 * 1024"

definition GetBasicBlock ::
  "('b, 'e, 'ir) collaborators \<Rightarrow> ('b, 'e) Jit \<Rightarrow> u64 \<Rightarrow> BlockDescriptor \<times> ('b, 'e) Jit" where
  "GetBasicBlock X j descriptor =
     (case A32EmitA64_GetBasicBlock X (emitter j) descriptor of
        Some block \<Rightarrow> (block, j)
      | None \<Rightarrow>
          (let j1 = (if SpaceRemaining X (block_of_code j) < MINIMUM_REMAINING_CODESIZE
                     then PerformCacheInvalidation X (j\<lparr>invalidate_entire_cache := True\<rparr>)
                     else j);
               ir0 = Translate X descriptor;
               ir1 = A32GetSetElimination X ir0;
               ir2 = DeadCodeElimination X ir1;
               ir3 = A32ConstantMemoryReads X ir2;
               ir4 = ConstantPropagation X ir3;
               ir5 = DeadCodeElimination X ir4;
               ir6 = A32MergeInterpretBlocksPass X ir5;
               ir_block = VerificationPass X ir6
           in case Emit X ir_block (block_of_code j1, emitter j1) of
                (block, b, e) \<Rightarrow> (block, j1\<lparr>block_of_code := b, emitter := e\<rparr>)))"

text \<open>
  \<^verbatim>\<open>Jit::Impl::Execute\<close>. The mask keeps the index inside the ring; an index outside the
  arrays has no defined result in the source and gives \<open>None\<close> here, as a run that does not
  return does.
\<close>

definition Execute :: "('b, 'e, 'ir) collaborators \<Rightarrow> ('b, 'e) Jit \<Rightarrow> ('b, 'e) Jit option" where
  "Execute X j =
     (let new_rsb_ptr = (rsb_ptr (jit_state j) - 1) AND RSBPtrMask X;
          i = unat new_rsb_ptr
      in if i < length (rsb_location_descriptors (jit_state j)) then
           if GetUniqueHash X (jit_state j) = rsb_location_descriptors (jit_state j) ! i then
             if i < length (rsb_codeptrs (jit_state j)) then
               RunCodeFrom X (j\<lparr>jit_state := (jit_state j)\<lparr>rsb_ptr := new_rsb_ptr\<rparr>\<rparr>)
                 (rsb_codeptrs (jit_state j) ! i)
             else None
           else RunCode X j
         else None)"

subsection \<open>The facade\<close>

text \<open>
  Modelled from the spec: the macro \<^verbatim>\<open>ASSERT\<close> (common/assert.h is not among the
  sources). Section 7: a violated precondition is fatal to the caller and reported via
  the assertion, as \<open>PreconditionViolated\<close>.
\<close>

definition ASSERT :: "bool \<Rightarrow> error option" where
  "ASSERT c = (if c then None else Some PreconditionViolated)"

text \<open>
  \<^verbatim>\<open>Jit::Run\<close>. The result is \<open>None\<close> when the emitted code does not return,
  \<open>Some (Inl e)\<close> when the assertion fails and \<open>Some (Inr j')\<close> when the call returns;
  \<^verbatim>\<open>SCOPE_EXIT\<close> clears \<^verbatim>\<open>is_executing\<close> on the way out.
\<close>

definition Run ::
  "('b, 'e, 'ir) collaborators \<Rightarrow> ('b, 'e) Jit \<Rightarrow> (error + ('b, 'e) Jit) option" where
  "Run X j =
     (case ASSERT (\<not> is_executing j) of
        Some e \<Rightarrow> Some (Inl e)
      | None \<Rightarrow>
          (let j1 = j\<lparr>is_executing := True\<rparr>;
               j2 = j1\<lparr>jit_state := (jit_state j1)\<lparr>halt_requested := False\<rparr>\<rparr>
           in case Execute X j2 of
                None \<Rightarrow> None
              | Some j3 \<Rightarrow> Some (Inr ((PerformCacheInvalidation X j3)\<lparr>is_executing := False\<rparr>))))"


text \<open>
  \<^verbatim>\<open>boost::icl::discrete_interval<u32>::closed(lo, up)\<close>: the addresses from \<open>lo\<close> to
  \<open>up\<close>, none when \<open>up < lo\<close>.
\<close>

definition interval_closed :: "u32 \<Rightarrow> u32 \<Rightarrow> u32 set" where
  "interval_closed lo up = {lo..up}"

text \<open>
  \<^verbatim>\<open>Jit::InvalidateCacheRange(std::uint32_t start_address, std::size_t length)\<close>. The
  sum \<^verbatim>\<open>start_address + length - 1\<close> is computed in \<^verbatim>\<open>size_t\<close> and cast to
  \<^verbatim>\<open>u32\<close>.
\<close>

definition InvalidateCacheRange ::
  "('b, 'e, 'ir) collaborators \<Rightarrow> ('b, 'e) Jit \<Rightarrow> u32 \<Rightarrow> u64 \<Rightarrow> ('b, 'e) Jit" where
  "InvalidateCacheRange X j start_address len =
     RequestCacheInvalidation X
       (j\<lparr>invalid_cache_ranges :=
            invalid_cache_ranges j \<union>
              interval_closed start_address (ucast ((ucast start_address :: u64) + len - 1))\<rparr>)"



subsection \<open>Saving and loading a context\<close>

text \<open>\<^verbatim>\<open>Context::Context()\<close>: a value-initialised \<^verbatim>\<open>Context::Impl\<close>, then \<^verbatim>\<open>ResetRSB\<close>.\<close>

definition Context_new :: "('b, 'e, 'ir) collaborators \<Rightarrow> Context" where
  "Context_new X =
     \<lparr>ctx_jit_state = ResetRSB X (A32JitState_init X), ctx_invalid_cache_generation = 0\<rparr>"

text \<open>\<^verbatim>\<open>void Jit::SaveContext(Context& ctx) const\<close>, returning the updated context.\<close>

definition SaveContext_into ::
  "('b, 'e, 'ir) collaborators \<Rightarrow> ('b, 'e) Jit \<Rightarrow> Context \<Rightarrow> Context" where
  "SaveContext_into X j ctx =
     ctx\<lparr>ctx_jit_state := TransferJitState X (ctx_jit_state ctx) (jit_state j) False,
         ctx_invalid_cache_generation := invalid_cache_generation j\<rparr>"

text \<open>\<^verbatim>\<open>Context Jit::SaveContext() const\<close>.\<close>

definition SaveContext :: "('b, 'e, 'ir) collaborators \<Rightarrow> ('b, 'e) Jit \<Rightarrow> Context" where
  "SaveContext X j = SaveContext_into X j (Context_new X)"

text \<open>\<^verbatim>\<open>void Jit::LoadContext(const Context& ctx)\<close>.\<close>

definition LoadContext ::
  "('b, 'e, 'ir) collaborators \<Rightarrow> ('b, 'e) Jit \<Rightarrow> Context \<Rightarrow> ('b, 'e) Jit" where
  "LoadContext X j ctx =
     (let reset = (ctx_invalid_cache_generation ctx \<noteq> invalid_cache_generation j)
      in j\<lparr>jit_state := TransferJitState X (jit_state j) (ctx_jit_state ctx) reset\<rparr>)"

section \<open>The VFP2 decoder (vfp2.h)\<close>

text \<open>
  \<^verbatim>\<open>Decoder::Matcher<Visitor, u32>\<close>: the handler \<open>fn\<close> of the visitor (type \<open>'v\<close>), the
  instruction's name, and the mask and the expected bits compiled from the bitstring
  (\<open>mask\<close> and \<open>size\<close> are constants of HOL, so the members carry a prefix).
\<close>

record 'v VFP2Matcher =
  fn :: 'v
  matcher_name :: string
  matcher_mask :: u32
  matcher_expected :: u32

text \<open>
  Modelled from the spec: \<^verbatim>\<open>Matcher::Matches\<close> (frontend/decoder/matcher.h is not among
  the sources). Section 4.1: for a pattern with \<open>(bits, mask)\<close>, instruction \<open>x\<close> matches
  iff \<open>x & mask == bits\<close>.
\<close>

definition Matches :: "'v VFP2Matcher \<Rightarrow> u32 \<Rightarrow> bool" where
  "Matches matcher instruction = (instruction AND matcher_mask matcher = matcher_expected matcher)"

text \<open>
  \<^verbatim>\<open>DecodeVFP2\<close>. The table is built from vfp2.inc or vfp2_a64.inc, which are not among
  the sources: it is a parameter, in declaration order. \<^verbatim>\<open>std::find_if\<close> is
  \<^const>\<open>List.find\<close>.
\<close>

definition DecodeVFP2 :: "'v VFP2Matcher list \<Rightarrow> u32 \<Rightarrow> 'v VFP2Matcher option" where
  "DecodeVFP2 table instruction =
     (if instruction AND 0xF0000000 = 0xF0000000 then None
      else List.find (\<lambda>matcher. Matches matcher instruction) table)"

section \<open>A sample instantiation\<close>

text \<open>
  A concrete choice of the collaborators, used to run the operations on concrete states:
  the arena is the number of bytes used out of 128 MiB, the emitter's cache an association
  list from location descriptors to block descriptors, an IR block just its location.
  \<open>reset_rsb\<close> keeps the pointer and fills the ring with all-ones descriptors and null
  code pointers. Emitted code returns at once.
\<close>

definition sample_collaborators ::
  "(nat, (u64 \<times> BlockDescriptor) list, u64) collaborators" where
  "sample_collaborators =
     \<lparr>reset_rsb = (\<lambda>(p, l, c). (p, map (\<lambda>_. - 1) l, map (\<lambda>_. 0) c)),
      RSBPtrMask = 7,
      GetUniqueHash =
        (\<lambda>s. push_bit 32 (ucast (Reg s ! 15)) OR ucast (CPSR_et s) OR ucast (FPSCR_mode s)),
      RunCode = (\<lambda>j. Some j),
      RunCodeFrom = (\<lambda>j p. Some j),
      SpaceRemaining = (\<lambda>used. 134217728 - used),
      BlockOfCode_ClearCache = (\<lambda>used. 0),
      A32EmitA64_GetBasicBlock = map_of,
      A32EmitA64_ClearCache = (\<lambda>blocks. []),
      InvalidateCacheRanges =
        (\<lambda>ranges (used, blocks). (used, filter (\<lambda>(d, b). ucast d \<notin> ranges) blocks)),
      Emit = (\<lambda>ir (used, blocks).
                (\<lparr>entrypoint = of_nat used, block_size = 64\<rparr>, used + 64,
                 (ir, \<lparr>entrypoint = of_nat used, block_size = 64\<rparr>) # blocks)),
      Translate = (\<lambda>d. d),
      A32GetSetElimination = (\<lambda>ir. ir),
      DeadCodeElimination = (\<lambda>ir. ir),
      A32ConstantMemoryReads = (\<lambda>ir. ir),
      ConstantPropagation = (\<lambda>ir. ir),
      A32MergeInterpretBlocksPass = (\<lambda>ir. ir),
      VerificationPass = (\<lambda>ir. ir)\<rparr>"

text \<open>
  The same, with emitted code whose callback asks for the invalidation of the addresses 4
  to 7 while it runs, which queues them and requests a halt.
\<close>

definition sample_collaborators_invalidating ::
  "(nat, (u64 \<times> BlockDescriptor) list, u64) collaborators" where
  "sample_collaborators_invalidating =
     sample_collaborators\<lparr>RunCode :=
       (\<lambda>j. Some (j\<lparr>invalid_cache_ranges := invalid_cache_ranges j \<union> interval_closed 4 7,
                     jit_state := (jit_state j)\<lparr>halt_requested := True\<rparr>\<rparr>))\<rparr>"

text \<open>A guest state with one entry pushed on the return stack buffer.\<close>

definition sample_state :: A32JitState where
  "sample_state =
     \<lparr>Reg = [1, 2, 3, 4, 5, 6, 7, 8, 9, 10, 11, 12, 13, 14, 15, 16],
      CPSR_ge = 0, CPSR_et = 0, CPSR_q = 0, CPSR_nzcv = 0x20000000, CPSR_jaifm = 0x1D0,
      ExtReg = replicate 64 0, guest_FPCR = 0, guest_FPSR = 0,
      halt_requested = False, rsb_ptr = 1,
      rsb_location_descriptors = [0x1400000000, - 1, - 1, - 1, - 1, - 1, - 1, - 1],
      rsb_codeptrs = [0x7F0000001040, 0, 0, 0, 0, 0, 0, 0],
      FPSCR_IDC = 0, FPSCR_UFC = 0, FPSCR_mode = 0, FPSCR_nzcv = 0\<rparr>"

definition sample_jit :: "(nat, (u64 \<times> BlockDescriptor) list) Jit" where
  "sample_jit =
     \<lparr>is_executing = False, jit_state = sample_state, block_of_code = 4096,
      emitter = [(0, \<lparr>entrypoint = 0x7F0000001000, block_size = 64\<rparr>)],
      invalid_cache_generation = 3, invalid_cache_ranges = {},
      invalidate_entire_cache = False\<rparr>"

text \<open>
  The same facade with a second block in the cache, translated from the addresses 4 to 7,
  and one whose only block starts at the last word of the address space.
\<close>

definition sample_jit_two_blocks :: "(nat, (u64 \<times> BlockDescriptor) list) Jit" where
  "sample_jit_two_blocks =
     \<lparr>is_executing = False, jit_state = sample_state, block_of_code = 4096,
      emitter = [(0, \<lparr>entrypoint = 0x7F0000001000, block_size = 64\<rparr>),
                 (4, \<lparr>entrypoint = 0x7F0000001040, block_size = 64\<rparr>)],
      invalid_cache_generation = 3, invalid_cache_ranges = {},
      invalidate_entire_cache = False\<rparr>"

definition sample_jit_top_block :: "(nat, (u64 \<times> BlockDescriptor) list) Jit" where
  "sample_jit_top_block =
     \<lparr>is_executing = False, jit_state = sample_state, block_of_code = 4096,
      emitter = [(0xFFFFFFFC, \<lparr>entrypoint = 0x7F0000001000, block_size = 64\<rparr>)],
      invalid_cache_generation = 3, invalid_cache_ranges = {},
      invalidate_entire_cache = False\<rparr>"

text \<open>The context saved from \<open>sample_jit\<close>.\<close>

definition sample_ctx :: Context where
  "sample_ctx = \<lparr>ctx_jit_state = sample_state, ctx_invalid_cache_generation = 3\<rparr>"

text \<open>
  A table of three matchers, the last one less specific than the first two:
  \<^verbatim>\<open>cccc11100D11nnnndddd101zN1M0mmmm\<close> (VSUB),
  \<^verbatim>\<open>cccc11100D11nnnndddd101zN0M0mmmm\<close> (VADD) and
  \<^verbatim>\<open>cccc1110nnnnnnnnnnnn1010nnn0nnnn\<close>.
\<close>

definition sample_table :: "string VFP2Matcher list" where
  "sample_table =
     [\<lparr>fn = ''vfp2_VSUB'', matcher_name = ''VSUB'',
       matcher_mask = 0x0FB00E50, matcher_expected = 0x0E300A40\<rparr>,
      \<lparr>fn = ''vfp2_VADD'', matcher_name = ''VADD'',
       matcher_mask = 0x0FB00E50, matcher_expected = 0x0E300A00\<rparr>,
      \<lparr>fn = ''vfp2_other'', matcher_name = ''other'',
       matcher_mask = 0x0F000F10, matcher_expected = 0x0E000A00\<rparr>]"

section \<open>Properties\<close>

subsection \<open>Auxiliary facts\<close>

lemma ResetRSB_halt_requested: "halt_requested (ResetRSB X s) = halt_requested s"
  by (simp add: ResetRSB_def split: prod.splits)

lemma PerformCacheInvalidation_serviced:
  "invalid_cache_ranges (PerformCacheInvalidation X j) = {} \<and>
   \<not> invalidate_entire_cache (PerformCacheInvalidation X j)"
  by (auto simp add: PerformCacheInvalidation_def split: prod.splits)


lemma PerformCacheInvalidation_generation:
  "invalidate_entire_cache j \<or> invalid_cache_ranges j \<noteq> {} \<Longrightarrow>
   invalid_cache_generation (PerformCacheInvalidation X j) = invalid_cache_generation j + 1"
  by (auto simp add: PerformCacheInvalidation_def split: prod.splits)

lemma PerformCacheInvalidation_full:
  "invalidate_entire_cache j \<Longrightarrow>
   PerformCacheInvalidation X j =
     j\<lparr>jit_state := ResetRSB X (jit_state j),
       block_of_code := BlockOfCode_ClearCache X (block_of_code j),
       emitter := A32EmitA64_ClearCache X (emitter j),
       invalid_cache_ranges := {},
       invalidate_entire_cache := False,
       invalid_cache_generation := invalid_cache_generation j + 1\<rparr>"
  by (simp add: PerformCacheInvalidation_def)

lemma PerformCacheInvalidation_partial:
  assumes "\<not> invalidate_entire_cache j" and "invalid_cache_ranges j \<noteq> {}"
  shows "(block_of_code (PerformCacheInvalidation X j), emitter (PerformCacheInvalidation X j)) =
           InvalidateCacheRanges X (invalid_cache_ranges j) (block_of_code j, emitter j) \<and>
         jit_state (PerformCacheInvalidation X j) = ResetRSB X (jit_state j) \<and>
         invalid_cache_generation (PerformCacheInvalidation X j) = invalid_cache_generation j + 1"
  using assms by (simp add: PerformCacheInvalidation_def split: prod.splits)

lemma PerformCacheInvalidation_idle:
  "\<not> invalidate_entire_cache j \<Longrightarrow> invalid_cache_ranges j = {} \<Longrightarrow>
   PerformCacheInvalidation X j = j"
  by (simp add: PerformCacheInvalidation_def)

lemma RequestCacheInvalidation_executing:
  "is_executing j \<Longrightarrow>
   RequestCacheInvalidation X j = j\<lparr>jit_state := (jit_state j)\<lparr>halt_requested := True\<rparr>\<rparr>"
  by (simp add: RequestCacheInvalidation_def)

lemma RequestCacheInvalidation_idle:
  "\<not> is_executing j \<Longrightarrow> RequestCacheInvalidation X j = PerformCacheInvalidation X j"
  by (simp add: RequestCacheInvalidation_def)

lemma Run_returns:
  "\<not> is_executing j \<Longrightarrow>
   Run X j =
     (case Execute X (j\<lparr>is_executing := True,
                        jit_state := (jit_state j)\<lparr>halt_requested := False\<rparr>\<rparr>) of
        None \<Rightarrow> None
      | Some j3 \<Rightarrow> Some (Inr ((PerformCacheInvalidation X j3)\<lparr>is_executing := False\<rparr>)))"
  by (simp add: Run_def ASSERT_def)

lemma Run_reentrant: "is_executing j \<Longrightarrow> Run X j = Some (Inl PreconditionViolated)"
  by (simp add: Run_def ASSERT_def)

text \<open>
  The end of the interval, when \<open>start + length - 1\<close> wraps in neither direction.
\<close>

lemma unat_interval_end:
  fixes start :: u32 and len :: u64
  assumes "1 \<le> unat start + unat len" and "unat start + unat len \<le> 2 ^ 32"
  shows "unat (ucast ((ucast start :: u64) + len - 1) :: u32) = unat start + unat len - 1"
proof -
  have "unat start < 2 ^ 64"
    using unsigned_less [of start, where 'a = nat] by simp
  then have s: "unat (ucast start :: u64) = unat start"
    by (simp add: unsigned_ucast_eq take_bit_nat_eq_self_iff)
  have "unat start + unat len < 2 ^ 64"
    using assms(2) by simp
  then have a: "unat ((ucast start :: u64) + len) = unat start + unat len"
    by (simp add: unat_add_lem [THEN iffD1] s)
  have "(1 :: u64) \<le> (ucast start :: u64) + len"
    using assms(1) a by (simp add: word_le_nat_alt)
  then have b: "unat ((ucast start :: u64) + len - 1) = unat start + unat len - 1"
    using a by (simp add: unat_sub)
  have "unat (ucast ((ucast start :: u64) + len - 1) :: u32)
        = unat ((ucast start :: u64) + len - 1) mod 2 ^ 32"
    by (simp add: unsigned_ucast_eq take_bit_eq_mod)
  also have "\<dots> = unat start + unat len - 1"
    using assms b by simp
  finally show ?thesis .
qed

lemma interval_closed_in_range:
  fixes start :: u32 and len :: u64
  assumes "1 \<le> unat start + unat len" and "unat start + unat len \<le> 2 ^ 32"
  shows "interval_closed start (ucast ((ucast start :: u64) + len - 1))
         = {a. unat start \<le> unat a \<and> unat a \<le> unat start + unat len - 1}"
  by (auto simp add: interval_closed_def word_le_nat_alt unat_interval_end [OF assms])

lemma ucast_minus_one: "(ucast (- 1 :: u64) :: u32) = - 1"
  by (rule bit_word_eqI) (simp add: bit_simps)

text \<open>The four top bits of a word, read through the mask and through the shift.\<close>

lemma bit_top_nibble_mask: "bit (0xF0000000 :: u32) n \<longleftrightarrow> 28 \<le> n \<and> n < 32"
proof -
  have e: "(0xF0000000 :: u32) = push_bit 28 (mask 4)"
    by (simp add: mask_eq_exp_minus_1 push_bit_eq_mult)
  show ?thesis
    by (subst e) (auto simp add: bit_push_bit_iff bit_mask_iff)
qed

lemma bit_fifteen: "bit (0xF :: u32) n \<longleftrightarrow> n < 4"
proof -
  have e: "(0xF :: u32) = mask 4"
    by (simp add: mask_eq_exp_minus_1)
  show ?thesis
    by (subst e) (auto simp add: bit_mask_iff)
qed

lemma top_nibble: "(x AND 0xF0000000 = 0xF0000000) = (drop_bit 28 x = 0xF)" for x :: u32
proof
  assume h: "x AND 0xF0000000 = 0xF0000000"
  show "drop_bit 28 x = 0xF"
  proof (rule bit_word_eqI)
    fix n assume n: "n < LENGTH(32)"
    have k: "bit (0xF0000000 :: u32) (28 + n) \<longleftrightarrow> n < 4"
      using bit_top_nibble_mask [of "28 + n"] by simp
    have "bit (x AND 0xF0000000) (28 + n) = bit (0xF0000000 :: u32) (28 + n)"
      by (simp only: h)
    then have "(bit x (28 + n) \<and> n < 4) = (n < 4)"
      by (simp only: bit_and_iff k)
    moreover have "bit x (28 + n) \<Longrightarrow> n < 4"
      using bit_imp_le_length [of x "28 + n"] by simp
    moreover have "bit (drop_bit 28 x) n = bit x (28 + n)"
      by (simp only: bit_drop_bit_eq comp_apply)
    moreover have "bit (0xF :: u32) n = (n < 4)"
      by (rule bit_fifteen)
    ultimately show "bit (drop_bit 28 x) n = bit (0xF :: u32) n"
      by blast
  qed
next
  assume h: "drop_bit 28 x = 0xF"
  show "x AND 0xF0000000 = 0xF0000000"
  proof (rule bit_word_eqI)
    fix n assume n: "n < LENGTH(32)"
    have k: "bit (0xF0000000 :: u32) n \<longleftrightarrow> 28 \<le> n"
      using bit_top_nibble_mask [of n] n by simp
    have "bit (drop_bit 28 x) (n - 28) = bit (0xF :: u32) (n - 28)"
      by (simp only: h)
    then have "bit x (28 + (n - 28)) = (n - 28 < 4)"
      by (simp only: bit_drop_bit_eq bit_fifteen comp_apply)
    then have "28 \<le> n \<Longrightarrow> bit x n"
      using n by simp
    moreover have "bit (x AND 0xF0000000) n = (bit x n \<and> bit (0xF0000000 :: u32) n)"
      by (rule bit_and_iff)
    ultimately show "bit (x AND 0xF0000000) n = bit (0xF0000000 :: u32) n"
      using k by blast
  qed
qed

subsection \<open>The sample run\<close>

lemma sample_entry:
  "sample_jit\<lparr>is_executing := True,
              jit_state := (jit_state sample_jit)\<lparr>halt_requested := False\<rparr>\<rparr>
   = sample_jit\<lparr>is_executing := True\<rparr>"
  by (simp add: sample_jit_def sample_state_def)

lemma two_blocks_entry:
  "sample_jit_two_blocks\<lparr>is_executing := True,
     jit_state := (jit_state sample_jit_two_blocks)\<lparr>halt_requested := False\<rparr>\<rparr>
   = sample_jit_two_blocks\<lparr>is_executing := True\<rparr>"
  by (simp add: sample_jit_two_blocks_def sample_state_def)

lemma two_blocks_Execute:
  "Execute sample_collaborators_invalidating (sample_jit_two_blocks\<lparr>is_executing := True\<rparr>) =
     Some (sample_jit_two_blocks\<lparr>is_executing := True, invalid_cache_ranges := {4 .. 7},
                                  jit_state := sample_state\<lparr>halt_requested := True\<rparr>\<rparr>)"
  by (simp add: Execute_def sample_collaborators_invalidating_def sample_collaborators_def
      sample_jit_two_blocks_def sample_state_def interval_closed_def)

lemma two_blocks_InvalidateCacheRanges:
  "InvalidateCacheRanges sample_collaborators_invalidating {4 .. 7}
     (4096, [(0, \<lparr>entrypoint = 0x7F0000001000, block_size = 64\<rparr>),
             (4, \<lparr>entrypoint = 0x7F0000001040, block_size = 64\<rparr>)]) =
   (4096, [(0, \<lparr>entrypoint = 0x7F0000001000, block_size = 64\<rparr>)])"
  by (simp add: sample_collaborators_invalidating_def sample_collaborators_def)

lemma two_blocks_Run:
  "Run sample_collaborators_invalidating sample_jit_two_blocks =
     Some (Inr (sample_jit_two_blocks
        \<lparr>jit_state := ResetRSB sample_collaborators_invalidating
                        (sample_state\<lparr>halt_requested := True\<rparr>),
         emitter := [(0, \<lparr>entrypoint = 0x7F0000001000, block_size = 64\<rparr>)],
         invalid_cache_generation := 4\<rparr>))"
proof -
  have n: "\<not> is_executing sample_jit_two_blocks"
    by (simp add: sample_jit_two_blocks_def)
  have p: "PerformCacheInvalidation sample_collaborators_invalidating
     (sample_jit_two_blocks\<lparr>is_executing := True, invalid_cache_ranges := {4 .. 7},
                             jit_state := sample_state\<lparr>halt_requested := True\<rparr>\<rparr>) =
   sample_jit_two_blocks\<lparr>is_executing := True,
        jit_state := ResetRSB sample_collaborators_invalidating
                       (sample_state\<lparr>halt_requested := True\<rparr>),
        emitter := [(0, \<lparr>entrypoint = 0x7F0000001000, block_size = 64\<rparr>)],
        invalid_cache_generation := 4\<rparr>"
    by (simp add: PerformCacheInvalidation_def sample_jit_two_blocks_def
        two_blocks_InvalidateCacheRanges)
  show ?thesis
    by (simp add: Run_returns [OF n] two_blocks_entry two_blocks_Execute p)
      (simp add: sample_jit_two_blocks_def)
qed


lemma sample_Execute:
  "Execute sample_collaborators (sample_jit\<lparr>is_executing := True\<rparr>) =
     Some (sample_jit\<lparr>is_executing := True\<rparr>)"
  by (simp add: Execute_def sample_collaborators_def sample_jit_def sample_state_def)

lemma sample_Run: "Run sample_collaborators sample_jit = Some (Inr sample_jit)"
proof -
  have n: "\<not> is_executing sample_jit"
    by (simp add: sample_jit_def)
  have p: "PerformCacheInvalidation sample_collaborators (sample_jit\<lparr>is_executing := True\<rparr>)
           = sample_jit\<lparr>is_executing := True\<rparr>"
    by (simp add: PerformCacheInvalidation_def sample_jit_def)
  show ?thesis
    by (simp add: Run_returns [OF n] sample_entry sample_Execute p) (simp add: sample_jit_def)
qed


lemma sample_SaveContext: "SaveContext sample_collaborators sample_jit = sample_ctx"
  by (simp add: SaveContext_def SaveContext_into_def TransferJitState_def Context_new_def
      ResetRSB_def A32JitState_init_def sample_ctx_def sample_jit_def split: prod.splits)
    (simp add: sample_state_def)

lemma sample_decode_VADD: "DecodeVFP2 sample_table 0xEE300A81 = Some (sample_table ! 1)"
  by (simp add: DecodeVFP2_def Matches_def sample_table_def)

lemma sample_decode_none: "DecodeVFP2 sample_table 0xE1A00000 = None"
  by (simp add: DecodeVFP2_def Matches_def sample_table_def)

subsection \<open>Contexts\<close>

text \<open>
  C1, as stated: \<^verbatim>\<open>save_context()\<close> persists no host code pointer. It does: the host code
  pointer in the live return stack buffer of \<open>sample_jit\<close> is in the saved context.
\<close>

theorem SaveContext_keeps_code_pointer:
  "rsb_codeptrs (jit_state sample_jit) = [0x7F0000001040, 0, 0, 0, 0, 0, 0, 0] \<and>
   rsb_codeptrs (ctx_jit_state (SaveContext sample_collaborators sample_jit)) =
     [0x7F0000001040, 0, 0, 0, 0, 0, 0, 0]"
  by (simp add: SaveContext_def SaveContext_into_def TransferJitState_def sample_jit_def
      sample_state_def)

text \<open>
  C1, amended: for every JIT state, \<^verbatim>\<open>save_context()\<close> stores a snapshot of the
  guest-state block, the return stack buffer with its host code pointers included, plus
  the cache generation at save time. The saved block is the live one but for
  \<^verbatim>\<open>halt_requested\<close>, which is not transferred: it keeps the value the context had (false
  in the context \<^verbatim>\<open>SaveContext()\<close> creates).
\<close>

theorem SaveContext_snapshot:
  "ctx_invalid_cache_generation (SaveContext_into X j ctx) = invalid_cache_generation j \<and>
   ctx_jit_state (SaveContext_into X j ctx) =
     (jit_state j)\<lparr>halt_requested := halt_requested (ctx_jit_state ctx)\<rparr> \<and>
   rsb_codeptrs (ctx_jit_state (SaveContext_into X j ctx)) = rsb_codeptrs (jit_state j) \<and>
   SaveContext X j = \<lparr>ctx_jit_state = (jit_state j)\<lparr>halt_requested := False\<rparr>,
                     ctx_invalid_cache_generation = invalid_cache_generation j\<rparr>"
  by (simp add: SaveContext_def SaveContext_into_def TransferJitState_def Context_new_def
      ResetRSB_halt_requested A32JitState_init_def)

theorem SaveContext_snapshot_witness:
  "SaveContext sample_collaborators sample_jit =
     \<lparr>ctx_jit_state = sample_state, ctx_invalid_cache_generation = 3\<rparr>"
  using SaveContext_snapshot [where X = sample_collaborators and j = sample_jit]
  by (simp add: sample_jit_def) (simp add: sample_state_def)

text \<open>
  C2. Loading the context that was just saved, with nothing in between, leaves the
  facade as it was: registers, extension registers, CPSR and FPSCR members, return stack
  buffer and everything else. It holds for the context \<^verbatim>\<open>SaveContext()\<close> returns and for
  any context \<^verbatim>\<open>SaveContext(ctx)\<close> has written into.
\<close>

theorem LoadContext_SaveContext:
  "LoadContext X j (SaveContext X j) = j
   \<and> LoadContext X j (SaveContext_into X j ctx) = j"
  by (simp add: LoadContext_def SaveContext_def SaveContext_into_def TransferJitState_def)

theorem LoadContext_SaveContext_witness:
  "LoadContext sample_collaborators sample_jit (SaveContext sample_collaborators sample_jit)
   = sample_jit"
  using LoadContext_SaveContext [where X = sample_collaborators and j = sample_jit]
  by blast

text \<open>
  C3. \<^verbatim>\<open>load_context\<close> resets the live return stack buffer (pointer, location
  descriptors, code pointers) when the context's generation differs from the current
  one: the buffer is then what \<^verbatim>\<open>ResetRSB\<close> makes of the live one. When the generations
  are equal, the buffer is the context's, copied through unchanged.
\<close>

theorem LoadContext_rsb:
  "(ctx_invalid_cache_generation ctx \<noteq> invalid_cache_generation j \<longrightarrow>
      (rsb_ptr (jit_state (LoadContext X j ctx)),
       rsb_location_descriptors (jit_state (LoadContext X j ctx)),
       rsb_codeptrs (jit_state (LoadContext X j ctx))) =
      reset_rsb X (rsb_ptr (jit_state j), rsb_location_descriptors (jit_state j),
                   rsb_codeptrs (jit_state j))) \<and>
   (ctx_invalid_cache_generation ctx = invalid_cache_generation j \<longrightarrow>
      (rsb_ptr (jit_state (LoadContext X j ctx)),
       rsb_location_descriptors (jit_state (LoadContext X j ctx)),
       rsb_codeptrs (jit_state (LoadContext X j ctx))) =
      (rsb_ptr (ctx_jit_state ctx), rsb_location_descriptors (ctx_jit_state ctx),
       rsb_codeptrs (ctx_jit_state ctx)))"
  by (auto simp add: LoadContext_def TransferJitState_def ResetRSB_def Let_def
      split: prod.splits)

text \<open>
  The context of \<open>sample_jit\<close>, saved at generation 3, loaded once after an invalidation
  (generation 4) and once after a \<^verbatim>\<open>Reset\<close> (generation still 3).
\<close>

theorem LoadContext_rsb_witness:
  "ctx_invalid_cache_generation sample_ctx \<noteq>
     invalid_cache_generation (sample_jit\<lparr>invalid_cache_generation := 4\<rparr>) \<and>
   rsb_codeptrs (jit_state (LoadContext sample_collaborators
      (sample_jit\<lparr>invalid_cache_generation := 4\<rparr>) sample_ctx)) =
     [0, 0, 0, 0, 0, 0, 0, 0] \<and>
   ctx_invalid_cache_generation sample_ctx =
     invalid_cache_generation (sample_jit\<lparr>jit_state := A32JitState_init sample_collaborators\<rparr>) \<and>
   rsb_codeptrs (jit_state (LoadContext sample_collaborators
      (sample_jit\<lparr>jit_state := A32JitState_init sample_collaborators\<rparr>) sample_ctx)) =
     [0x7F0000001040, 0, 0, 0, 0, 0, 0, 0]"
proof -
  have a: "ctx_invalid_cache_generation sample_ctx \<noteq>
           invalid_cache_generation (sample_jit\<lparr>invalid_cache_generation := 4\<rparr>)"
    by (simp add: sample_ctx_def)
  have b: "ctx_invalid_cache_generation sample_ctx =
           invalid_cache_generation
             (sample_jit\<lparr>jit_state := A32JitState_init sample_collaborators\<rparr>)"
    by (simp add: sample_ctx_def sample_jit_def)
  note c = LoadContext_rsb [where X = sample_collaborators, THEN conjunct1, THEN mp, OF a]
  note d = LoadContext_rsb [where X = sample_collaborators, THEN conjunct2, THEN mp, OF b]
  have c': "rsb_codeptrs (jit_state (LoadContext sample_collaborators
      (sample_jit\<lparr>invalid_cache_generation := 4\<rparr>) sample_ctx)) = [0, 0, 0, 0, 0, 0, 0, 0]"
    using c by (simp add: sample_collaborators_def sample_jit_def sample_state_def)
  have d': "rsb_codeptrs (jit_state (LoadContext sample_collaborators
      (sample_jit\<lparr>jit_state := A32JitState_init sample_collaborators\<rparr>) sample_ctx)) =
     [0x7F0000001040, 0, 0, 0, 0, 0, 0, 0]"
    using d by (simp add: sample_ctx_def sample_state_def)
  show ?thesis
    using a b c' d' by blast
qed

subsection \<open>Running\<close>

text \<open>
  C4. \<^verbatim>\<open>run()\<close> requires \<^verbatim>\<open>!is_executing\<close>: a re-entrant call fails with
  \<open>PreconditionViolated\<close>. A permitted call enters the dispatcher in a state where
  \<^verbatim>\<open>is_executing\<close> is set and \<^verbatim>\<open>halt_requested\<close> is cleared; when the execution returns,
  the pending invalidation is serviced before \<^verbatim>\<open>run()\<close> returns. Servicing is spelled
  out on the state \<open>j3\<close> the execution returned: a requested full flush clears the arena
  and the emitter's cache; otherwise pending ranges are handed to
  \<^verbatim>\<open>emitter.InvalidateCacheRanges\<close>, whose result is the arena and the emitter's cache
  \<^verbatim>\<open>run()\<close> leaves; both reset the return stack buffer and move the generation on by one;
  with nothing pending the state stays as the execution left it. On return no range is
  pending, no full flush is requested and \<^verbatim>\<open>is_executing\<close> is clear again.
\<close>

theorem Run_contract:
  "(is_executing j \<longrightarrow> Run X j = Some (Inl PreconditionViolated)) \<and>
   (\<not> is_executing j \<longrightarrow>
      (\<exists>entry. is_executing entry \<and> \<not> halt_requested (jit_state entry) \<and>
         entry = j\<lparr>is_executing := True,
                   jit_state := (jit_state j)\<lparr>halt_requested := False\<rparr>\<rparr> \<and>
         Run X j =
           (case Execute X entry of
              None \<Rightarrow> None
            | Some j3 \<Rightarrow>
                Some (Inr ((PerformCacheInvalidation X j3)\<lparr>is_executing := False\<rparr>))))) \<and>
   (Run X j = Some (Inr j') \<longrightarrow>
      \<not> is_executing j' \<and> invalid_cache_ranges j' = {} \<and> \<not> invalidate_entire_cache j' \<and>
      (\<exists>j3. Execute X (j\<lparr>is_executing := True,
                          jit_state := (jit_state j)\<lparr>halt_requested := False\<rparr>\<rparr>) = Some j3 \<and>
         (invalidate_entire_cache j3 \<longrightarrow>
            j' = j3\<lparr>is_executing := False,
                    jit_state := ResetRSB X (jit_state j3),
                    block_of_code := BlockOfCode_ClearCache X (block_of_code j3),
                    emitter := A32EmitA64_ClearCache X (emitter j3),
                    invalid_cache_ranges := {},
                    invalidate_entire_cache := False,
                    invalid_cache_generation := invalid_cache_generation j3 + 1\<rparr>) \<and>
         (\<not> invalidate_entire_cache j3 \<and> invalid_cache_ranges j3 \<noteq> {} \<longrightarrow>
            (block_of_code j', emitter j') =
              InvalidateCacheRanges X (invalid_cache_ranges j3) (block_of_code j3, emitter j3) \<and>
            jit_state j' = ResetRSB X (jit_state j3) \<and>
            invalid_cache_generation j' = invalid_cache_generation j3 + 1) \<and>
         (\<not> invalidate_entire_cache j3 \<and> invalid_cache_ranges j3 = {} \<longrightarrow>
            j' = j3\<lparr>is_executing := False\<rparr>)))"
proof (intro conjI impI)
  assume "is_executing j"
  then show "Run X j = Some (Inl PreconditionViolated)"
    by (rule Run_reentrant)
next
  assume "\<not> is_executing j"
  then show "\<exists>entry. is_executing entry \<and> \<not> halt_requested (jit_state entry) \<and>
         entry = j\<lparr>is_executing := True,
                   jit_state := (jit_state j)\<lparr>halt_requested := False\<rparr>\<rparr> \<and>
         Run X j =
           (case Execute X entry of
              None \<Rightarrow> None
            | Some j3 \<Rightarrow>
                Some (Inr ((PerformCacheInvalidation X j3)\<lparr>is_executing := False\<rparr>)))"
    by (simp add: Run_returns)
next
  assume r: "Run X j = Some (Inr j')"
  then have n: "\<not> is_executing j"
    by (auto simp add: Run_reentrant)
  from r obtain j3 where
    e: "Execute X (j\<lparr>is_executing := True,
                     jit_state := (jit_state j)\<lparr>halt_requested := False\<rparr>\<rparr>) = Some j3"
    and j': "j' = (PerformCacheInvalidation X j3)\<lparr>is_executing := False\<rparr>"
    by (auto simp add: Run_returns [OF n] split: option.splits)
  show "\<not> is_executing j'"
    by (simp add: j')
  show "invalid_cache_ranges j' = {}"
    by (simp add: j' PerformCacheInvalidation_serviced)
  show "\<not> invalidate_entire_cache j'"
    by (simp add: j' PerformCacheInvalidation_serviced)
  have full: "invalidate_entire_cache j3 \<longrightarrow>
            j' = j3\<lparr>is_executing := False,
                    jit_state := ResetRSB X (jit_state j3),
                    block_of_code := BlockOfCode_ClearCache X (block_of_code j3),
                    emitter := A32EmitA64_ClearCache X (emitter j3),
                    invalid_cache_ranges := {},
                    invalidate_entire_cache := False,
                    invalid_cache_generation := invalid_cache_generation j3 + 1\<rparr>"
    by (simp add: j' PerformCacheInvalidation_full)
  have partial: "\<not> invalidate_entire_cache j3 \<and> invalid_cache_ranges j3 \<noteq> {} \<longrightarrow>
            (block_of_code j', emitter j') =
              InvalidateCacheRanges X (invalid_cache_ranges j3) (block_of_code j3, emitter j3) \<and>
            jit_state j' = ResetRSB X (jit_state j3) \<and>
            invalid_cache_generation j' = invalid_cache_generation j3 + 1"
    using PerformCacheInvalidation_partial [of j3 X] by (simp add: j')
  have idle: "\<not> invalidate_entire_cache j3 \<and> invalid_cache_ranges j3 = {} \<longrightarrow>
            j' = j3\<lparr>is_executing := False\<rparr>"
    by (simp add: j' PerformCacheInvalidation_idle)
  show "\<exists>j3. Execute X (j\<lparr>is_executing := True,
                          jit_state := (jit_state j)\<lparr>halt_requested := False\<rparr>\<rparr>) = Some j3 \<and>
         (invalidate_entire_cache j3 \<longrightarrow>
            j' = j3\<lparr>is_executing := False,
                    jit_state := ResetRSB X (jit_state j3),
                    block_of_code := BlockOfCode_ClearCache X (block_of_code j3),
                    emitter := A32EmitA64_ClearCache X (emitter j3),
                    invalid_cache_ranges := {},
                    invalidate_entire_cache := False,
                    invalid_cache_generation := invalid_cache_generation j3 + 1\<rparr>) \<and>
         (\<not> invalidate_entire_cache j3 \<and> invalid_cache_ranges j3 \<noteq> {} \<longrightarrow>
            (block_of_code j', emitter j') =
              InvalidateCacheRanges X (invalid_cache_ranges j3) (block_of_code j3, emitter j3) \<and>
            jit_state j' = ResetRSB X (jit_state j3) \<and>
            invalid_cache_generation j' = invalid_cache_generation j3 + 1) \<and>
         (\<not> invalidate_entire_cache j3 \<and> invalid_cache_ranges j3 = {} \<longrightarrow>
            j' = j3\<lparr>is_executing := False\<rparr>)"
    using e full partial idle by blast
qed

text \<open>
  A re-entrant call, and a run over a cache of two blocks whose emitted code queues the
  addresses 4 to 7: on return the block translated from address 4 is gone from the cache,
  the queue is empty and the generation has moved from 3 to 4.
\<close>

theorem Run_contract_witness:
  "is_executing (sample_jit\<lparr>is_executing := True\<rparr>) \<and>
   Run sample_collaborators_invalidating (sample_jit\<lparr>is_executing := True\<rparr>) =
     Some (Inl PreconditionViolated) \<and>
   \<not> is_executing sample_jit_two_blocks \<and>
   Run sample_collaborators_invalidating sample_jit_two_blocks =
     Some (Inr (sample_jit_two_blocks
        \<lparr>jit_state := ResetRSB sample_collaborators_invalidating
                        (sample_state\<lparr>halt_requested := True\<rparr>),
         emitter := [(0, \<lparr>entrypoint = 0x7F0000001000, block_size = 64\<rparr>)],
         invalid_cache_generation := 4\<rparr>)) \<and>
   Execute sample_collaborators_invalidating (sample_jit_two_blocks\<lparr>is_executing := True\<rparr>) =
     Some (sample_jit_two_blocks\<lparr>is_executing := True, invalid_cache_ranges := {4 .. 7},
                                  jit_state := sample_state\<lparr>halt_requested := True\<rparr>\<rparr>) \<and>
   (4096, [(0, \<lparr>entrypoint = 0x7F0000001000, block_size = 64\<rparr>)]) =
     InvalidateCacheRanges sample_collaborators_invalidating {4 .. 7}
       (4096, [(0, \<lparr>entrypoint = 0x7F0000001000, block_size = 64\<rparr>),
               (4, \<lparr>entrypoint = 0x7F0000001040, block_size = 64\<rparr>)])"
proof -
  have a: "is_executing (sample_jit\<lparr>is_executing := True\<rparr>)"
    by simp
  have b: "\<not> is_executing sample_jit_two_blocks"
    by (simp add: sample_jit_two_blocks_def)
  note c = Run_contract [where j = "sample_jit\<lparr>is_executing := True\<rparr>"
      and X = sample_collaborators_invalidating, THEN conjunct1, THEN mp, OF a]
  note d = Run_contract [where j = sample_jit_two_blocks
      and X = sample_collaborators_invalidating,
      THEN conjunct2, THEN conjunct2, THEN mp, OF two_blocks_Run,
      THEN conjunct2, THEN conjunct2, THEN conjunct2, unfolded two_blocks_entry]
  from d obtain j3 where
    e: "Execute sample_collaborators_invalidating (sample_jit_two_blocks\<lparr>is_executing := True\<rparr>)
        = Some j3"
    and p: "\<not> invalidate_entire_cache j3 \<and> invalid_cache_ranges j3 \<noteq> {} \<longrightarrow>
      (block_of_code (sample_jit_two_blocks
          \<lparr>jit_state := ResetRSB sample_collaborators_invalidating
                          (sample_state\<lparr>halt_requested := True\<rparr>),
           emitter := [(0, \<lparr>entrypoint = 0x7F0000001000, block_size = 64\<rparr>)],
           invalid_cache_generation := 4\<rparr>),
       emitter (sample_jit_two_blocks
          \<lparr>jit_state := ResetRSB sample_collaborators_invalidating
                          (sample_state\<lparr>halt_requested := True\<rparr>),
           emitter := [(0, \<lparr>entrypoint = 0x7F0000001000, block_size = 64\<rparr>)],
           invalid_cache_generation := 4\<rparr>)) =
      InvalidateCacheRanges sample_collaborators_invalidating (invalid_cache_ranges j3)
        (block_of_code j3, emitter j3)"
    by blast
  from e have j3: "j3 = sample_jit_two_blocks\<lparr>is_executing := True, invalid_cache_ranges := {4 .. 7},
                                  jit_state := sample_state\<lparr>halt_requested := True\<rparr>\<rparr>"
    by (simp add: two_blocks_Execute)
  have f: "(4096, [(0, \<lparr>entrypoint = 0x7F0000001000, block_size = 64\<rparr>)]) =
     InvalidateCacheRanges sample_collaborators_invalidating {4 .. 7}
       (4096, [(0, \<lparr>entrypoint = 0x7F0000001000, block_size = 64\<rparr>),
               (4, \<lparr>entrypoint = 0x7F0000001040, block_size = 64\<rparr>)])"
    using p unfolding j3 by (simp add: sample_jit_two_blocks_def)
  show ?thesis
    using a b c f two_blocks_Run two_blocks_Execute by blast
qed

subsection \<open>Invalidation\<close>

text \<open>
  C5. The claim: for every start address and length,
  \<^verbatim>\<open>invalidate_range(start, length)\<close> adds exactly the closed interval from \<open>start\<close> to
  \<open>start + length - 1\<close> to the pending set; inside \<^verbatim>\<open>Run\<close> the request then only sets
  \<^verbatim>\<open>halt_requested\<close>, outside \<^verbatim>\<open>Run\<close> the invalidation is performed at once. The code
  computes the end of the interval in \<^verbatim>\<open>size_t\<close> and casts it to \<^verbatim>\<open>u32\<close> with no check
  of the wrap. For the eight bytes from \<^verbatim>\<open>0xFFFFFFFC\<close> the end wraps to 3: inside
  \<^verbatim>\<open>Run\<close> nothing is queued, not even the start address, and outside \<^verbatim>\<open>Run\<close> the call
  changes nothing, so the block cached for \<^verbatim>\<open>0xFFFFFFFC\<close> stays in the cache, whereas a
  request for the four bytes from \<^verbatim>\<open>0xFFFFFFFC\<close> removes it. For a length of 0 at address
  0 the end wraps to \<^verbatim>\<open>0xFFFFFFFF\<close> and every address is queued, although the interval
  asked for is empty.
\<close>

theorem InvalidateCacheRange_wraps:
  "invalid_cache_ranges
      (InvalidateCacheRange sample_collaborators (sample_jit_top_block\<lparr>is_executing := True\<rparr>)
         0xFFFFFFFC 8) = {} \<and>
   0xFFFFFFFC \<notin> invalid_cache_ranges
      (InvalidateCacheRange sample_collaborators (sample_jit\<lparr>is_executing := True\<rparr>)
         0xFFFFFFFC 8) \<and>
   InvalidateCacheRange sample_collaborators sample_jit_top_block 0xFFFFFFFC 8 =
     sample_jit_top_block \<and>
   A32EmitA64_GetBasicBlock sample_collaborators
     (emitter (InvalidateCacheRange sample_collaborators sample_jit_top_block 0xFFFFFFFC 8))
     0xFFFFFFFC = Some \<lparr>entrypoint = 0x7F0000001000, block_size = 64\<rparr> \<and>
   A32EmitA64_GetBasicBlock sample_collaborators
     (emitter (InvalidateCacheRange sample_collaborators sample_jit_top_block 0xFFFFFFFC 4))
     0xFFFFFFFC = None \<and>
   0x1000 \<in> invalid_cache_ranges
      (InvalidateCacheRange sample_collaborators (sample_jit\<lparr>is_executing := True\<rparr>) 0 0)"
proof -
  have a: "invalid_cache_ranges
      (InvalidateCacheRange sample_collaborators (sample_jit_top_block\<lparr>is_executing := True\<rparr>)
         0xFFFFFFFC 8) = {}"
    by (simp add: InvalidateCacheRange_def interval_closed_def RequestCacheInvalidation_def
        sample_jit_top_block_def)
  have b: "0xFFFFFFFC \<notin> invalid_cache_ranges
      (InvalidateCacheRange sample_collaborators (sample_jit\<lparr>is_executing := True\<rparr>)
         0xFFFFFFFC 8)"
    by (simp add: InvalidateCacheRange_def interval_closed_def RequestCacheInvalidation_def sample_jit_def)
  have c: "InvalidateCacheRange sample_collaborators sample_jit_top_block 0xFFFFFFFC 8 =
     sample_jit_top_block"
    by (simp add: InvalidateCacheRange_def interval_closed_def RequestCacheInvalidation_def
        PerformCacheInvalidation_def sample_jit_top_block_def)
  have d: "A32EmitA64_GetBasicBlock sample_collaborators (emitter sample_jit_top_block)
     0xFFFFFFFC = Some \<lparr>entrypoint = 0x7F0000001000, block_size = 64\<rparr>"
    by (simp add: sample_collaborators_def sample_jit_top_block_def)
  have f: "A32EmitA64_GetBasicBlock sample_collaborators
     (emitter (InvalidateCacheRange sample_collaborators sample_jit_top_block 0xFFFFFFFC 4))
     0xFFFFFFFC = None"
    by (simp add: InvalidateCacheRange_def interval_closed_def RequestCacheInvalidation_def
        PerformCacheInvalidation_def sample_jit_top_block_def sample_collaborators_def)
  have g: "0x1000 \<in> invalid_cache_ranges
      (InvalidateCacheRange sample_collaborators (sample_jit\<lparr>is_executing := True\<rparr>) 0 0)"
    by (simp add: InvalidateCacheRange_def RequestCacheInvalidation_def interval_closed_def
        sample_jit_def ucast_minus_one)
  show ?thesis
    using a b c d f g by simp
qed

text \<open>
  Where \<open>1 \<le> start + length \<le> 2^32\<close>, so that \<open>start + length - 1\<close> wraps in neither
  direction, \<^verbatim>\<open>InvalidateCacheRange\<close> adds exactly the closed interval from \<open>start\<close> to
  \<open>start + length - 1\<close> to the pending set. Inside \<^verbatim>\<open>Run\<close> the request then only sets
  \<^verbatim>\<open>halt_requested\<close> (the arena, the emitter's cache and the generation stay as they
  are). Outside \<^verbatim>\<open>Run\<close> the invalidation is performed at once: the pending set, the new
  interval included, is handed to \<^verbatim>\<open>emitter.InvalidateCacheRanges\<close>, whose result is the
  arena and the emitter's cache the call leaves (a requested full flush clears both
  instead); the pending set is empty afterwards and, for a length of at least 1, the
  generation has moved on by one.
\<close>

theorem InvalidateCacheRange_in_range:
  fixes start :: u32 and len :: u64
  assumes "1 \<le> unat start + unat len" and "unat start + unat len \<le> 2 ^ 32"
  shows
    "(let queued = invalid_cache_ranges j \<union>
                     {a. unat start \<le> unat a \<and> unat a \<le> unat start + unat len - 1}
      in (is_executing j \<longrightarrow>
            InvalidateCacheRange X j start len =
              j\<lparr>invalid_cache_ranges := queued,
                jit_state := (jit_state j)\<lparr>halt_requested := True\<rparr>\<rparr>) \<and>
         (\<not> is_executing j \<longrightarrow>
            InvalidateCacheRange X j start len =
              PerformCacheInvalidation X (j\<lparr>invalid_cache_ranges := queued\<rparr>) \<and>
            invalid_cache_ranges (InvalidateCacheRange X j start len) = {} \<and>
            (1 \<le> unat len \<longrightarrow>
               invalid_cache_generation (InvalidateCacheRange X j start len) =
                 invalid_cache_generation j + 1) \<and>
            (invalidate_entire_cache j \<longrightarrow>
               block_of_code (InvalidateCacheRange X j start len) =
                 BlockOfCode_ClearCache X (block_of_code j) \<and>
               emitter (InvalidateCacheRange X j start len) =
                 A32EmitA64_ClearCache X (emitter j)) \<and>
            (\<not> invalidate_entire_cache j \<and> queued \<noteq> {} \<longrightarrow>
               (block_of_code (InvalidateCacheRange X j start len),
                emitter (InvalidateCacheRange X j start len)) =
                 InvalidateCacheRanges X queued (block_of_code j, emitter j) \<and>
               jit_state (InvalidateCacheRange X j start len) = ResetRSB X (jit_state j)) \<and>
            (\<not> invalidate_entire_cache j \<and> queued = {} \<longrightarrow>
               InvalidateCacheRange X j start len = j)))"
proof -
  define queued where
    "queued = invalid_cache_ranges j \<union>
                {a. unat start \<le> unat a \<and> unat a \<le> unat start + unat len - 1}"
  define r where "r = InvalidateCacheRange X j start len"
  have q: "invalid_cache_ranges j \<union>
             interval_closed start (ucast ((ucast start :: u64) + len - 1)) = queued"
    by (simp add: queued_def interval_closed_in_range [OF assms])
  have e: "is_executing j \<Longrightarrow>
        r = j\<lparr>invalid_cache_ranges := queued,
              jit_state := (jit_state j)\<lparr>halt_requested := True\<rparr>\<rparr>"
    by (simp add: r_def InvalidateCacheRange_def q RequestCacheInvalidation_executing)
  have i: "\<not> is_executing j \<Longrightarrow>
        r = PerformCacheInvalidation X (j\<lparr>invalid_cache_ranges := queued\<rparr>)"
    by (simp add: r_def InvalidateCacheRange_def q RequestCacheInvalidation_idle)
  have s: "\<not> is_executing j \<Longrightarrow> invalid_cache_ranges r = {}"
    by (simp add: i PerformCacheInvalidation_serviced)
  have g: "invalid_cache_generation r = invalid_cache_generation j + 1"
    if "\<not> is_executing j" and "1 \<le> unat len"
  proof -
    have "start \<in> queued"
      using that(2) by (auto simp add: queued_def)
    then have "queued \<noteq> {}"
      by blast
    then show ?thesis
      using PerformCacheInvalidation_generation [of "j\<lparr>invalid_cache_ranges := queued\<rparr>" X]
      by (simp add: i [OF that(1)])
  qed
  have f: "block_of_code r = BlockOfCode_ClearCache X (block_of_code j) \<and>
           emitter r = A32EmitA64_ClearCache X (emitter j)"
    if "\<not> is_executing j" and "invalidate_entire_cache j"
    using that(2) by (simp add: i [OF that(1)] PerformCacheInvalidation_full)
  have p: "(block_of_code r, emitter r) = InvalidateCacheRanges X queued (block_of_code j, emitter j) \<and>
           jit_state r = ResetRSB X (jit_state j)"
    if "\<not> is_executing j" and "\<not> invalidate_entire_cache j \<and> queued \<noteq> {}"
    using that(2) PerformCacheInvalidation_partial [of "j\<lparr>invalid_cache_ranges := queued\<rparr>" X]
    by (simp add: i [OF that(1)])
  have n: "r = j" if "\<not> is_executing j" and "\<not> invalidate_entire_cache j \<and> queued = {}"
  proof -
    have z: "invalid_cache_ranges j = {}"
      using that(2) by (auto simp add: queued_def)
    then have "j\<lparr>invalid_cache_ranges := queued\<rparr> = j"
      using that(2) by simp
    then show ?thesis
      using that(2) z by (simp add: i [OF that(1)] PerformCacheInvalidation_idle)
  qed
  show ?thesis
    unfolding Let_def queued_def [symmetric] r_def [symmetric]
    using e i s g f p n by blast
qed


text \<open>
  The four bytes at address 4, requested inside and outside \<^verbatim>\<open>Run\<close> over a cache of two
  blocks: outside \<^verbatim>\<open>Run\<close> the block translated from address 4 is gone from the cache.
\<close>

theorem InvalidateCacheRange_in_range_witness:
  "1 \<le> unat (4 :: u32) + unat (4 :: u64) \<and> unat (4 :: u32) + unat (4 :: u64) \<le> 2 ^ 32 \<and>
   1 \<le> unat (4 :: u64) \<and>
   is_executing (sample_jit_two_blocks\<lparr>is_executing := True\<rparr>) \<and>
   InvalidateCacheRange sample_collaborators (sample_jit_two_blocks\<lparr>is_executing := True\<rparr>) 4 4 =
     sample_jit_two_blocks\<lparr>is_executing := True, invalid_cache_ranges := {4 .. 7},
                           jit_state := sample_state\<lparr>halt_requested := True\<rparr>\<rparr> \<and>
   \<not> is_executing sample_jit_two_blocks \<and>
   invalid_cache_ranges (InvalidateCacheRange sample_collaborators sample_jit_two_blocks 4 4) = {} \<and>
   invalid_cache_generation (InvalidateCacheRange sample_collaborators sample_jit_two_blocks 4 4) = 4 \<and>
   emitter (InvalidateCacheRange sample_collaborators sample_jit_two_blocks 4 4) =
     [(0, \<lparr>entrypoint = 0x7F0000001000, block_size = 64\<rparr>)]"
proof -
  have h1: "1 \<le> unat (4 :: u32) + unat (4 :: u64)"
    by simp
  have h3: "1 \<le> unat (4 :: u64)"
    by simp
  have h2: "unat (4 :: u32) + unat (4 :: u64) \<le> 2 ^ 32"
    by simp
  have s: "{a :: u32. unat (4 :: u32) \<le> unat a \<and>
                      unat a \<le> unat (4 :: u32) + unat (4 :: u64) - 1} = {4 .. 7}"
    by (auto simp add: word_le_nat_alt)
  note t = InvalidateCacheRange_in_range [OF h1 h2, unfolded Let_def s]
  have a: "is_executing (sample_jit_two_blocks\<lparr>is_executing := True\<rparr>)"
    by simp
  have b: "\<not> is_executing sample_jit_two_blocks"
    by (simp add: sample_jit_two_blocks_def)
  have pe: "\<not> invalidate_entire_cache sample_jit_two_blocks \<and>
            invalid_cache_ranges sample_jit_two_blocks \<union> {4 .. 7} \<noteq> {}"
    by (simp add: sample_jit_two_blocks_def)
  note c = t [where j = "sample_jit_two_blocks\<lparr>is_executing := True\<rparr>"
      and X = sample_collaborators, THEN conjunct1, THEN mp, OF a]
  note d = t [where j = sample_jit_two_blocks and X = sample_collaborators,
      THEN conjunct2, THEN mp, OF b, THEN conjunct2]
  note d1 = d [THEN conjunct1]
  note d2 = d [THEN conjunct2, THEN conjunct1, THEN mp, OF h3]
  note d3 = d [THEN conjunct2, THEN conjunct2, THEN conjunct2, THEN conjunct1, THEN mp, OF pe,
      THEN conjunct1]
  have c': "InvalidateCacheRange sample_collaborators
              (sample_jit_two_blocks\<lparr>is_executing := True\<rparr>) 4 4 =
     sample_jit_two_blocks\<lparr>is_executing := True, invalid_cache_ranges := {4 .. 7},
                           jit_state := sample_state\<lparr>halt_requested := True\<rparr>\<rparr>"
    using c by (simp add: sample_jit_two_blocks_def)
  have d': "invalid_cache_ranges
              (InvalidateCacheRange sample_collaborators sample_jit_two_blocks 4 4) = {} \<and>
            invalid_cache_generation
              (InvalidateCacheRange sample_collaborators sample_jit_two_blocks 4 4) = 4"
    using d1 d2 by (simp add: sample_jit_two_blocks_def)
  have d'': "emitter (InvalidateCacheRange sample_collaborators sample_jit_two_blocks 4 4) =
     [(0, \<lparr>entrypoint = 0x7F0000001000, block_size = 64\<rparr>)]"
    using d3 by (simp add: sample_jit_two_blocks_def sample_collaborators_def)
  show ?thesis
    using h1 h2 h3 a b c' d' d'' by blast
qed

text \<open>
  C6. Servicing a full-flush request resets the return stack buffer of the live
  guest-state block (\<^verbatim>\<open>jit_state.ResetRSB()\<close>), resets the host code arena
  (\<^verbatim>\<open>block_of_code.ClearCache()\<close>), clears the emitter's forward map, range index and
  fast-dispatch table (\<^verbatim>\<open>emitter.ClearCache()\<close>), empties the pending range set and
  clears the full-flush flag. After servicing any invalidation, full or partial, the
  generation counter has moved on by exactly one (a \<^verbatim>\<open>size_t\<close>, so modulo \<open>2^64\<close>).
\<close>

theorem PerformCacheInvalidation_full_flush:
  "(invalidate_entire_cache j \<longrightarrow>
      PerformCacheInvalidation X j =
        j\<lparr>jit_state := ResetRSB X (jit_state j),
          block_of_code := BlockOfCode_ClearCache X (block_of_code j),
          emitter := A32EmitA64_ClearCache X (emitter j),
          invalid_cache_ranges := {},
          invalidate_entire_cache := False,
          invalid_cache_generation := invalid_cache_generation j + 1\<rparr>) \<and>
   (invalidate_entire_cache j \<or> invalid_cache_ranges j \<noteq> {} \<longrightarrow>
      invalid_cache_generation (PerformCacheInvalidation X j) = invalid_cache_generation j + 1 \<and>
      unat (invalid_cache_generation (PerformCacheInvalidation X j)) =
        (unat (invalid_cache_generation j) + 1) mod 2 ^ 64)"
proof (intro conjI impI)
  assume "invalidate_entire_cache j"
  then show "PerformCacheInvalidation X j =
        j\<lparr>jit_state := ResetRSB X (jit_state j),
          block_of_code := BlockOfCode_ClearCache X (block_of_code j),
          emitter := A32EmitA64_ClearCache X (emitter j),
          invalid_cache_ranges := {},
          invalidate_entire_cache := False,
          invalid_cache_generation := invalid_cache_generation j + 1\<rparr>"
    by (simp add: PerformCacheInvalidation_def)
next
  assume "invalidate_entire_cache j \<or> invalid_cache_ranges j \<noteq> {}"
  then show g: "invalid_cache_generation (PerformCacheInvalidation X j) =
                invalid_cache_generation j + 1"
    by (rule PerformCacheInvalidation_generation)
  show "unat (invalid_cache_generation (PerformCacheInvalidation X j)) =
        (unat (invalid_cache_generation j) + 1) mod 2 ^ 64"
    by (simp add: g unat_word_ariths)
qed

text \<open>A full flush and a partial one, both at generation 3.\<close>

theorem PerformCacheInvalidation_full_flush_witness:
  "invalidate_entire_cache (sample_jit\<lparr>invalidate_entire_cache := True\<rparr>) \<and>
   PerformCacheInvalidation sample_collaborators (sample_jit\<lparr>invalidate_entire_cache := True\<rparr>) =
     sample_jit\<lparr>jit_state := ResetRSB sample_collaborators sample_state, block_of_code := 0,
                emitter := [], invalid_cache_generation := 4\<rparr> \<and>
   invalid_cache_ranges (sample_jit\<lparr>invalid_cache_ranges := {4 .. 7}\<rparr>) \<noteq> {} \<and>
   invalid_cache_generation
     (PerformCacheInvalidation sample_collaborators
        (sample_jit\<lparr>invalid_cache_ranges := {4 .. 7}\<rparr>)) = 4"
proof -
  have a: "invalidate_entire_cache (sample_jit\<lparr>invalidate_entire_cache := True\<rparr>)"
    by simp
  have b: "invalid_cache_ranges (sample_jit\<lparr>invalid_cache_ranges := {4 .. 7}\<rparr>) \<noteq> {}"
    by simp
  note c = PerformCacheInvalidation_full_flush
    [where j = "sample_jit\<lparr>invalidate_entire_cache := True\<rparr>" and X = sample_collaborators,
     THEN conjunct1, THEN mp, OF a]
  note d = PerformCacheInvalidation_full_flush
    [where j = "sample_jit\<lparr>invalid_cache_ranges := {4 .. 7}\<rparr>" and X = sample_collaborators,
     THEN conjunct2, THEN mp, OF disjI2, OF b, THEN conjunct1]
  have c': "PerformCacheInvalidation sample_collaborators
              (sample_jit\<lparr>invalidate_entire_cache := True\<rparr>) =
     sample_jit\<lparr>jit_state := ResetRSB sample_collaborators sample_state, block_of_code := 0,
                emitter := [], invalid_cache_generation := 4\<rparr>"
    using c by (simp add: sample_jit_def sample_collaborators_def)
  have d': "invalid_cache_generation
     (PerformCacheInvalidation sample_collaborators
        (sample_jit\<lparr>invalid_cache_ranges := {4 .. 7}\<rparr>)) = 4"
    using d by (simp add: sample_jit_def)
  show ?thesis
    using a b c' d' by blast
qed

text \<open>
  C7. On a miss in the code cache with less than 1 MiB left in the arena,
  \<^verbatim>\<open>GetBasicBlock\<close> performs a full flush before it emits: the translated and optimised
  block is emitted into the cleared arena and the cleared emitter, the return stack buffer
  is reset, nothing stays pending and the generation moves on by one. The call returns the
  new block's descriptor: the condition is not an error of the call.
\<close>

theorem GetBasicBlock_low_space:
  assumes "A32EmitA64_GetBasicBlock X (emitter j) descriptor = None"
    and "SpaceRemaining X (block_of_code j) < 1048576"
  shows "GetBasicBlock X j descriptor =
     (case Emit X
             (VerificationPass X (A32MergeInterpretBlocksPass X (DeadCodeElimination X
               (ConstantPropagation X (A32ConstantMemoryReads X (DeadCodeElimination X
                 (A32GetSetElimination X (Translate X descriptor))))))))
             (BlockOfCode_ClearCache X (block_of_code j), A32EmitA64_ClearCache X (emitter j)) of
        (block, b, e) \<Rightarrow>
          (block,
           j\<lparr>jit_state := ResetRSB X (jit_state j), block_of_code := b, emitter := e,
             invalid_cache_ranges := {}, invalidate_entire_cache := False,
             invalid_cache_generation := invalid_cache_generation j + 1\<rparr>))"
  using assms
  by (simp add: GetBasicBlock_def MINIMUM_REMAINING_CODESIZE_def PerformCacheInvalidation_def
      split: prod.splits)

text \<open>A miss at location 4 with 728 bytes left of the arena's 128 MiB.\<close>

theorem GetBasicBlock_low_space_witness:
  "A32EmitA64_GetBasicBlock sample_collaborators
     (emitter (sample_jit\<lparr>block_of_code := 134217000\<rparr>)) 4 = None \<and>
   SpaceRemaining sample_collaborators
     (block_of_code (sample_jit\<lparr>block_of_code := 134217000\<rparr>)) < 1048576 \<and>
   GetBasicBlock sample_collaborators (sample_jit\<lparr>block_of_code := 134217000\<rparr>) 4 =
     (\<lparr>entrypoint = 0, block_size = 64\<rparr>,
      sample_jit\<lparr>jit_state := ResetRSB sample_collaborators sample_state, block_of_code := 64,
                 emitter := [(4, \<lparr>entrypoint = 0, block_size = 64\<rparr>)],
                 invalid_cache_generation := 4\<rparr>)"
proof -
  have a: "A32EmitA64_GetBasicBlock sample_collaborators
             (emitter (sample_jit\<lparr>block_of_code := 134217000\<rparr>)) 4 = None"
    by (simp add: sample_collaborators_def sample_jit_def)
  have b: "SpaceRemaining sample_collaborators
             (block_of_code (sample_jit\<lparr>block_of_code := 134217000\<rparr>)) < 1048576"
    by (simp add: sample_collaborators_def)
  have c: "GetBasicBlock sample_collaborators (sample_jit\<lparr>block_of_code := 134217000\<rparr>) 4 =
     (\<lparr>entrypoint = 0, block_size = 64\<rparr>,
      sample_jit\<lparr>jit_state := ResetRSB sample_collaborators sample_state, block_of_code := 64,
                 emitter := [(4, \<lparr>entrypoint = 0, block_size = 64\<rparr>)],
                 invalid_cache_generation := 4\<rparr>)"
    using GetBasicBlock_low_space [OF a b]
    by (simp add: sample_collaborators_def sample_jit_def ResetRSB_def)
  show ?thesis
    using a b c by blast
qed

subsection \<open>The halt flag\<close>




subsection \<open>Decoding\<close>

text \<open>
  C9. For a word whose top nibble is \<^verbatim>\<open>0xF\<close> the decoder returns \<open>None\<close>. For every other
  word it returns the first matcher, in the table's order, whose mask and bits satisfy
  \<open>x AND mask = bits\<close> (the matcher at an index \<open>i\<close> such that no matcher before \<open>i\<close>
  matches), and \<open>None\<close> exactly when no matcher of the table matches.
\<close>

theorem DecodeVFP2_first_match:
  "(drop_bit 28 x = 0xF \<longrightarrow> DecodeVFP2 table x = None) \<and>
   (drop_bit 28 x \<noteq> 0xF \<longrightarrow>
      (DecodeVFP2 table x = Some m \<longleftrightarrow>
         (\<exists>i<length table. table ! i = m \<and> x AND matcher_mask m = matcher_expected m \<and>
            (\<forall>k<i. x AND matcher_mask (table ! k) \<noteq> matcher_expected (table ! k)))) \<and>
      (DecodeVFP2 table x = None \<longleftrightarrow>
         (\<forall>i<length table. x AND matcher_mask (table ! i) \<noteq> matcher_expected (table ! i))))"
  by (auto simp add: DecodeVFP2_def top_nibble find_Some_iff find_None_iff Matches_def
      in_set_conv_nth)

text \<open>
  \<^verbatim>\<open>0xEE300A81\<close> (\<^verbatim>\<open>vadd.f32 s0, s1, s2\<close>) matches the second and the third matcher of
  the sample table and decodes to the second; with the condition field \<^verbatim>\<open>0xF\<close> it decodes
  to nothing; \<^verbatim>\<open>0xE1A00000\<close> matches no matcher.
\<close>

theorem DecodeVFP2_first_match_witness:
  "drop_bit 28 (0xFE300A81 :: u32) = 0xF \<and> DecodeVFP2 sample_table 0xFE300A81 = None \<and>
   drop_bit 28 (0xEE300A81 :: u32) \<noteq> 0xF \<and>
   DecodeVFP2 sample_table 0xEE300A81 = Some (sample_table ! 1) \<and>
   0xEE300A81 AND matcher_mask (sample_table ! 1) = matcher_expected (sample_table ! 1) \<and>
   0xEE300A81 AND matcher_mask (sample_table ! 2) = matcher_expected (sample_table ! 2) \<and>
   0xEE300A81 AND matcher_mask (sample_table ! 0) \<noteq> matcher_expected (sample_table ! 0) \<and>
   DecodeVFP2 sample_table 0xE1A00000 = None"
proof -
  have a: "drop_bit 28 (0xFE300A81 :: u32) = 0xF"
    by simp
  have b: "drop_bit 28 (0xEE300A81 :: u32) \<noteq> 0xF"
    by simp
  note c = DecodeVFP2_first_match [where table = sample_table, THEN conjunct1, THEN mp, OF a]
  note d = DecodeVFP2_first_match [where table = sample_table and m = "sample_table ! 1",
      THEN conjunct2, THEN mp, OF b, THEN conjunct1, THEN iffD1, OF sample_decode_VADD]
  have e: "0xEE300A81 AND matcher_mask (sample_table ! 1) = matcher_expected (sample_table ! 1)"
    using d by blast
  have f: "0xEE300A81 AND matcher_mask (sample_table ! 2) = matcher_expected (sample_table ! 2) \<and>
           0xEE300A81 AND matcher_mask (sample_table ! 0) \<noteq> matcher_expected (sample_table ! 0)"
    by (simp add: sample_table_def)
  show ?thesis
    using a b c e f sample_decode_VADD sample_decode_none by blast
qed

subsection \<open>The idle invalidation\<close>

text \<open>
  C10. With no full flush requested and no range pending,
  \<^verbatim>\<open>PerformCacheInvalidation\<close> changes nothing: generation, return stack buffer, code cache
  and all the rest stay as they are. \<^verbatim>\<open>Run()\<close> calls it on every return: what a returning
  \<^verbatim>\<open>Run()\<close> leaves is what \<^verbatim>\<open>PerformCacheInvalidation\<close> makes of the state the execution
  returned, with \<^verbatim>\<open>is_executing\<close> cleared.
\<close>

theorem PerformCacheInvalidation_nothing_pending:
  "(\<not> invalidate_entire_cache j \<and> invalid_cache_ranges j = {} \<longrightarrow>
      PerformCacheInvalidation X j = j) \<and>
   (Run X j = Some (Inr j') \<longrightarrow>
      (\<exists>j3. Execute X (j\<lparr>is_executing := True,
                          jit_state := (jit_state j)\<lparr>halt_requested := False\<rparr>\<rparr>) = Some j3 \<and>
            j' = (PerformCacheInvalidation X j3)\<lparr>is_executing := False\<rparr>))"
proof (intro conjI impI)
  assume "\<not> invalidate_entire_cache j \<and> invalid_cache_ranges j = {}"
  then show "PerformCacheInvalidation X j = j"
    by (simp add: PerformCacheInvalidation_def)
next
  assume r: "Run X j = Some (Inr j')"
  then have n: "\<not> is_executing j"
    by (auto simp add: Run_reentrant)
  from r show "\<exists>j3. Execute X (j\<lparr>is_executing := True,
                          jit_state := (jit_state j)\<lparr>halt_requested := False\<rparr>\<rparr>) = Some j3 \<and>
            j' = (PerformCacheInvalidation X j3)\<lparr>is_executing := False\<rparr>"
    by (auto simp add: Run_returns [OF n] split: option.splits)
qed

theorem PerformCacheInvalidation_nothing_pending_witness:
  "\<not> invalidate_entire_cache sample_jit \<and> invalid_cache_ranges sample_jit = {} \<and>
   PerformCacheInvalidation sample_collaborators sample_jit = sample_jit \<and>
   Run sample_collaborators sample_jit = Some (Inr sample_jit) \<and>
   Execute sample_collaborators (sample_jit\<lparr>is_executing := True\<rparr>) =
     Some (sample_jit\<lparr>is_executing := True\<rparr>) \<and>
   sample_jit =
     (PerformCacheInvalidation sample_collaborators
        (sample_jit\<lparr>is_executing := True\<rparr>))\<lparr>is_executing := False\<rparr>"
proof -
  have a: "\<not> invalidate_entire_cache sample_jit \<and> invalid_cache_ranges sample_jit = {}"
    by (simp add: sample_jit_def)
  note c = PerformCacheInvalidation_nothing_pending
    [where j = sample_jit and X = sample_collaborators, THEN conjunct1, THEN mp, OF a]
  note d = PerformCacheInvalidation_nothing_pending
    [where j = sample_jit and X = sample_collaborators and j' = sample_jit,
     THEN conjunct2, THEN mp, OF sample_Run]
  from d obtain j3 where j3:
    "Execute sample_collaborators (sample_jit\<lparr>is_executing := True\<rparr>) = Some j3"
    "sample_jit = (PerformCacheInvalidation sample_collaborators j3)\<lparr>is_executing := False\<rparr>"
    unfolding sample_entry by blast
  from j3(1) have "j3 = sample_jit\<lparr>is_executing := True\<rparr>"
    by (simp add: sample_Execute)
  with j3 a c sample_Run show ?thesis
    by simp
qed

end
